theory Spec2Isabelle
  imports Complex_Main "HOL-Library.Multiset"
begin

section \<open>Python primitives used by the services\<close>

text \<open>
  Python floats are modelled as exact rationals: every threshold of the scoring code is
  compared against a quotient of the provider's numbers, and every penalty is an integer.
  Strings are ASCII character lists.
\<close>

text \<open>\<^verbatim>\<open>int(x)\<close> on a float truncates towards zero.\<close>

definition py_int :: "rat \<Rightarrow> int" where
  "py_int x = (if 0 \<le> x then \<lfloor>x\<rfloor> else - \<lfloor>- x\<rfloor>)"

text \<open>\<^verbatim>\<open>round(x, n)\<close> rounds to \<open>n\<close> decimals, ties to the even neighbour.\<close>

definition round_half_even :: "rat \<Rightarrow> int" where
  "round_half_even x =
     (let f = \<lfloor>x\<rfloor>; d = x - of_int f
      in if d < 1 / 2 then f
         else if 1 / 2 < d then f + 1
         else if even f then f else f + 1)"

definition py_round :: "rat \<Rightarrow> nat \<Rightarrow> rat" where
  "py_round x n = of_int (round_half_even (x * 10 ^ n)) / 10 ^ n"

text \<open>\<^verbatim>\<open>str.strip()\<close> and \<^verbatim>\<open>str.lower()\<close> on ASCII text.\<close>

definition isspace :: "char \<Rightarrow> bool" where
  "isspace c = (c \<in> set [CHR 0x09, CHR 0x0A, CHR 0x0B, CHR 0x0C, CHR 0x0D,
                          CHR 0x1C, CHR 0x1D, CHR 0x1E, CHR 0x1F, CHR 0x20])"

definition strip :: "string \<Rightarrow> string" where
  "strip s = rev (dropWhile isspace (rev (dropWhile isspace s)))"

definition lower_char :: "char \<Rightarrow> char" where
  "lower_char c =
     (case map_of (zip ''ABCDEFGHIJKLMNOPQRSTUVWXYZ'' ''abcdefghijklmnopqrstuvwxyz'') c of
        None \<Rightarrow> c
      | Some d \<Rightarrow> d)"

definition lower :: "string \<Rightarrow> string" where
  "lower s = map lower_char s"

text \<open>
  Decimal rendering of a non-negative integer, as an f-string prints it.
\<close>

fun str_nat :: "nat \<Rightarrow> string" where
  "str_nat n =
     (if n < 10 then [''0123456789'' ! n]
      else str_nat (n div 10) @ [''0123456789'' ! (n mod 10)])"

declare str_nat.simps [simp del]

subsection \<open>The regular expressions\<close>

text \<open>
  Both patterns have the shape \<^verbatim>\<open>\b(w1|w2|...)\b\<close> with \<^verbatim>\<open>re.IGNORECASE\<close>.
  \<^verbatim>\<open>search\<close> tries every start position from left to right: a word boundary, then one
  of the alternatives with letters compared without case, then a word boundary again.
  A word character is a letter, a digit or the underscore; a word boundary lies between
  a word character and a character that is none (or an end of the text).
\<close>

definition is_word_char :: "char \<Rightarrow> bool" where
  "is_word_char c =
     (c \<in> set ''abcdefghijklmnopqrstuvwxyzABCDEFGHIJKLMNOPQRSTUVWXYZ0123456789_'')"

text \<open>
  The boundary test between the character before the position (\<open>None\<close> at the start of
  the text) and the text from the position on.
\<close>

definition boundary :: "char option \<Rightarrow> string \<Rightarrow> bool" where
  "boundary prev rest =
     ((case prev of None \<Rightarrow> False | Some c \<Rightarrow> is_word_char c)
      \<noteq> (case rest of [] \<Rightarrow> False | c # _ \<Rightarrow> is_word_char c))"

text \<open>One alternative at the current position, followed by the closing boundary.\<close>

fun match_alt :: "string \<Rightarrow> char option \<Rightarrow> string \<Rightarrow> bool" where
  "match_alt [] prev rest = boundary prev rest"
| "match_alt (p # ps) prev [] = False"
| "match_alt (p # ps) prev (c # cs) =
     (if lower_char p = lower_char c then match_alt ps (Some c) cs else False)"

fun search_from :: "string list \<Rightarrow> char option \<Rightarrow> string \<Rightarrow> bool" where
  "search_from alts prev s =
     (if boundary prev s \<and> list_ex (\<lambda>w. match_alt w prev s) alts then True
      else case s of [] \<Rightarrow> False | c # cs \<Rightarrow> search_from alts (Some c) cs)"

declare search_from.simps [simp del]

definition re_search :: "string list \<Rightarrow> string \<Rightarrow> bool" where
  "re_search alts s = search_from alts None s"

section \<open>The provider's route data\<close>

text \<open>
  A route, a leg and a step are dictionaries decoded from the provider's JSON. The
  records hold what the code reads from them, a missing key replaced by the default the
  code passes to \<^verbatim>\<open>get\<close> (\<open>0\<close> for a number, the empty string for a text).
\<close>

record maneuver =
  mtype :: string
  modifier :: string
  location :: "rat list"

record step =
  step_distance :: rat
  step_duration :: rat
  step_name :: string
  step_ref :: string
  step_maneuver :: maneuver

record leg =
  leg_steps :: "step list"

record geojson =
  gtype :: string
  coordinates :: "rat list list"

record route =
  route_distance :: rat
  route_duration :: rat
  legs :: "leg list"
  geometry :: "geojson option"

section \<open>safety\_engine.py\<close>

datatype SafetyMode = Day | Night

datatype traffic = Low | Moderate | High

definition HIGHWAY_PATTERN :: "string list" where
  "HIGHWAY_PATTERN =
     [''NH'', ''SH'', ''National Highway'', ''State Highway'', ''Expressway'',
      ''motorway'', ''trunk'']"

record penalties =
  pen_road_type :: int
  pen_turn_density :: int
  pen_isolation :: int
  pen_duration :: int
  pen_traffic :: int

record SafetyResult =
  score :: rat
  highway_ratio :: rat
  turn_density :: rat
  longest_isolated_segment_km :: rat
  traffic_level :: traffic
  result_penalties :: penalties
  distance_km :: rat
  duration_hours :: rat

definition extract_steps :: "route \<Rightarrow> step list" where
  "extract_steps r = concat (map leg_steps (legs r))"

definition is_highway_step :: "step \<Rightarrow> bool" where
  "is_highway_step st = re_search HIGHWAY_PATTERN (step_name st @ '' '' @ step_ref st)"

definition compute_highway_ratio :: "step list \<Rightarrow> rat \<Rightarrow> rat" where
  "compute_highway_ratio steps total_distance_m =
     (if total_distance_m \<le> 0 then 0
      else fold (\<lambda>st highway_dist.
                   if is_highway_step st then highway_dist + step_distance st
                   else highway_dist) steps 0
           / total_distance_m)"

definition is_turn :: "step \<Rightarrow> bool" where
  "is_turn st = (mtype (step_maneuver st) \<notin> set [''depart'', ''arrive''])"

definition compute_turn_density :: "step list \<Rightarrow> rat \<Rightarrow> rat" where
  "compute_turn_density steps total_distance_km =
     (if total_distance_km \<le> 0 then 0
      else of_nat (length (filter is_turn steps)) / total_distance_km)"

definition is_isolated :: "step \<Rightarrow> bool" where
  "is_isolated st = (strip (step_name st) = [] \<and> strip (step_ref st) = [])"

text \<open>One iteration of the isolation loop on the pair (current run, longest run).\<close>

definition isolation_step :: "step \<Rightarrow> rat \<times> rat \<Rightarrow> rat \<times> rat" where
  "isolation_step st acc =
     (case acc of (current_run_m, longest_m) \<Rightarrow>
        if is_isolated st then (current_run_m + step_distance st, longest_m)
        else (0, if current_run_m > longest_m then current_run_m else longest_m))"

definition compute_isolation :: "step list \<Rightarrow> rat" where
  "compute_isolation steps =
     (case fold isolation_step steps (0, 0) of (current_run_m, longest_m) \<Rightarrow>
        (if current_run_m > longest_m then current_run_m else longest_m) / 1000)"

definition classify_traffic :: "rat \<Rightarrow> rat \<Rightarrow> traffic" where
  "classify_traffic duration_s distance_m =
     (if distance_m \<le> 0 \<or> duration_s \<le> 0 then Moderate
      else let avg_speed_kmh = (distance_m / 1000) / (duration_s / 3600)
           in if avg_speed_kmh \<ge> 70 then Low
              else if avg_speed_kmh \<ge> 45 then Moderate
              else High)"

text \<open>
  The penalty dictionary of \<^verbatim>\<open>compute_safety\<close>, in the order the code fills it, the
  night multipliers included.
\<close>

definition compute_penalties :: "route \<Rightarrow> SafetyMode \<Rightarrow> penalties" where
  "compute_penalties r mode =
     (let total_distance_m = route_distance r;
          total_duration_s = route_duration r;
          total_distance_km = total_distance_m / 1000;
          total_duration_h = total_duration_s / 3600;
          steps = extract_steps r;
          highway_ratio = compute_highway_ratio steps total_distance_m;
          turn_density = compute_turn_density steps total_distance_km;
          longest_isolated_km = compute_isolation steps;
          traffic_level = classify_traffic total_duration_s total_distance_m;
          road_type = (if highway_ratio > 7 / 10 then 0
                       else if highway_ratio \<ge> 4 / 10 then - 5 else - 10);
          turn_pen = (if turn_density < 1 then 0
                      else if turn_density \<le> 2 then - 5 else - 10);
          iso_penalty = (if longest_isolated_km > 50 then - 15
                         else if longest_isolated_km > 20 then - 7 else 0);
          iso_penalty = (if mode = Night then py_int (of_int iso_penalty * (3 / 2))
                         else iso_penalty);
          dur_pen = (if total_duration_h > 8 then - 10
                     else if total_duration_h > 6 then - 5 else 0);
          traffic_pen = (case traffic_level of High \<Rightarrow> - 10 | Moderate \<Rightarrow> - 5 | Low \<Rightarrow> 0);
          road_type = (if mode = Night \<and> road_type < 0
                       then py_int (of_int road_type * (13 / 10)) else road_type)
      in \<lparr>pen_road_type = road_type, pen_turn_density = turn_pen,
          pen_isolation = iso_penalty, pen_duration = dur_pen,
          pen_traffic = traffic_pen\<rparr>)"

definition sum_values :: "penalties \<Rightarrow> int" where
  "sum_values p =
     pen_road_type p + pen_turn_density p + pen_isolation p + pen_duration p + pen_traffic p"

text \<open>The local \<^verbatim>\<open>raw = base + sum(penalties.values())\<close> with \<^verbatim>\<open>base = 100\<close>.\<close>

definition raw_score :: "route \<Rightarrow> SafetyMode \<Rightarrow> int" where
  "raw_score r mode = 100 + sum_values (compute_penalties r mode)"

definition compute_safety :: "route \<Rightarrow> SafetyMode \<Rightarrow> SafetyResult" where
  "compute_safety r mode =
     (let total_distance_m = route_distance r;
          total_duration_s = route_duration r;
          total_distance_km = total_distance_m / 1000;
          total_duration_h = total_duration_s / 3600;
          steps = extract_steps r;
          raw = raw_score r mode;
          clamped = max 10 raw;
          normalised = py_round (of_int clamped / 10) 1
      in \<lparr>score = normalised,
          highway_ratio = py_round (compute_highway_ratio steps total_distance_m) 3,
          turn_density = py_round (compute_turn_density steps total_distance_km) 2,
          longest_isolated_segment_km = py_round (compute_isolation steps) 1,
          traffic_level = classify_traffic total_duration_s total_distance_m,
          result_penalties = compute_penalties r mode,
          distance_km = py_round total_distance_km 1,
          duration_hours = py_round total_duration_h 2\<rparr>)"


section \<open>route\_service.py\<close>

subsection \<open>Exceptions and the external services\<close>

text \<open>
  The exceptions that reach the HTTP boundary. \<open>JSONDecodeError\<close> is a subclass of
  \<open>ValueError\<close>; the HTTP client's \<open>HTTPStatusError\<close> (raised by
  \<^verbatim>\<open>raise_for_status\<close>) and \<open>TransportError\<close> (raised by \<^verbatim>\<open>client.get\<close>) derive
  from \<open>Exception\<close> only.
\<close>

datatype exn = ValueError | JSONDecodeError | RuntimeError | HTTPStatusError | TransportError

definition is_ValueError :: "exn \<Rightarrow> bool" where
  "is_ValueError e = (e = ValueError \<or> e = JSONDecodeError)"

definition is_RuntimeError :: "exn \<Rightarrow> bool" where
  "is_RuntimeError e = (e = RuntimeError)"

text \<open>
  What one HTTP exchange can come to: the request never completes, the response has an
  error status, its body is not JSON, or it decodes to a payload.
\<close>

datatype 'a reply = TransportFailure | ErrorStatus | NotJson | Json 'a

record geo_hit =
  lat :: rat
  lon :: rat

record osrm_data =
  osrm_code :: "string option"
  osrm_routes :: "route list"

type_synonym coords = "rat \<times> rat"

text \<open>
  The two external services, as functions of what the code sends them: the place name
  of the geocoding query, and the two coordinate pairs of the routing query.
\<close>

record world =
  nominatim :: "string \<Rightarrow> geo_hit list reply"
  osrm :: "coords \<Rightarrow> coords \<Rightarrow> osrm_data reply"

subsection \<open>The geocode cache\<close>

type_synonym cache = "string \<rightharpoonup> coords"

definition SEED_CACHE :: "(string \<times> coords) list" where
  "SEED_CACHE =
     [
      (''delhi'', (28.6139, 77.2090)),
      (''new delhi'', (28.6139, 77.2090)),
      (''mumbai'', (19.0760, 72.8777)),
      (''bangalore'', (12.9716, 77.5946)),
      (''bengaluru'', (12.9716, 77.5946)),
      (''chennai'', (13.0827, 80.2707)),
      (''kolkata'', (22.5726, 88.3639)),
      (''hyderabad'', (17.3850, 78.4867)),
      (''pune'', (18.5204, 73.8567)),
      (''jaipur'', (26.9124, 75.7873)),
      (''ahmedabad'', (23.0225, 72.5714)),
      (''lucknow'', (26.8467, 80.9462)),
      (''agra'', (27.1767, 78.0081)),
      (''varanasi'', (25.3176, 82.9739)),
      (''goa'', (15.2993, 74.1240)),
      (''udaipur'', (24.5854, 73.7125)),
      (''jodhpur'', (26.2389, 73.0243)),
      (''amritsar'', (31.6340, 74.8723)),
      (''shimla'', (31.1048, 77.1734)),
      (''manali'', (32.2396, 77.1887)),
      (''rishikesh'', (30.0869, 78.2676)),
      (''haridwar'', (29.9457, 78.1642)),
      (''mysore'', (12.2958, 76.6394)),
      (''mysuru'', (12.2958, 76.6394)),
      (''kochi'', (9.9312, 76.2673)),
      (''thiruvananthapuram'', (8.5241, 76.9366)),
      (''chandigarh'', (30.7333, 76.7794)),
      (''indore'', (22.7196, 75.8577)),
      (''bhopal'', (23.2599, 77.4126)),
      (''nagpur'', (21.1458, 79.0882)),
      (''surat'', (21.1702, 72.8311)),
      (''coimbatore'', (11.0168, 76.9558)),
      (''visakhapatnam'', (17.6868, 83.2185)),
      (''patna'', (25.6093, 85.1376)),
      (''ranchi'', (23.3441, 85.3096)),
      (''dehradun'', (30.3165, 78.0322)),
      (''guwahati'', (26.1445, 91.7362)),
      (''bhubaneswar'', (20.2961, 85.8245)),
      (''trivandrum'', (8.5241, 76.9366)),
      (''madurai'', (9.9252, 78.1198)),
      (''jaisalmer'', (26.9157, 70.9083)),
      (''pushkar'', (26.4900, 74.5513)),
      (''mathura'', (27.4924, 77.6737)),
      (''leh'', (34.1526, 77.5771)),
      (''srinagar'', (34.0837, 74.7973)),
      (''darjeeling'', (27.0360, 88.2627)),
      (''gangtok'', (27.3389, 88.6065)),
      (''ooty'', (11.4102, 76.6950)),
      (''kodaikanal'', (10.2381, 77.4892)),
      (''mount abu'', (24.5926, 72.7156)),
      (''nainital'', (29.3803, 79.4636)),
      (''mussoorie'', (30.4598, 78.0644))
     ]"

text \<open>The module-level cache after \<^verbatim>\<open>_geocode_cache.update(_SEED_CACHE)\<close>.\<close>

definition seeded_cache :: cache where
  "seeded_cache = map_of SEED_CACHE"

definition geocode :: "world \<Rightarrow> cache \<Rightarrow> string \<Rightarrow> (exn + coords) \<times> cache" where
  "geocode w c place_name =
     (let key = lower (strip place_name)
      in case c key of
           Some v \<Rightarrow> (Inr v, c)
         | None \<Rightarrow>
             (case nominatim w place_name of
                TransportFailure \<Rightarrow> (Inl TransportError, c)
              | ErrorStatus \<Rightarrow> (Inl HTTPStatusError, c)
              | NotJson \<Rightarrow> (Inl JSONDecodeError, c)
              | Json data \<Rightarrow>
                  (case data of
                     [] \<Rightarrow> (Inl ValueError, c)
                   | hit # _ \<Rightarrow> (Inr (lat hit, lon hit), c(key \<mapsto> (lat hit, lon hit))))))"

definition fetch_osrm_routes :: "world \<Rightarrow> coords \<Rightarrow> coords \<Rightarrow> exn + route list" where
  "fetch_osrm_routes w from_coords to_coords =
     (case osrm w from_coords to_coords of
        TransportFailure \<Rightarrow> Inl TransportError
      | ErrorStatus \<Rightarrow> Inl HTTPStatusError
      | NotJson \<Rightarrow> Inl JSONDecodeError
      | Json data \<Rightarrow>
          if osrm_code data \<noteq> Some ''Ok'' then Inl RuntimeError
          else Inr (osrm_routes data))"

subsection \<open>Road quality, navigation steps, road summary\<close>

datatype quality = Excellent | Good | Average

definition route_HIGHWAY_PATTERN :: "string list" where
  "route_HIGHWAY_PATTERN =
     [''NH'', ''SH'', ''National Highway'', ''State Highway'', ''Expressway'']"

definition is_highway_name :: "string \<Rightarrow> bool" where
  "is_highway_name s = re_search route_HIGHWAY_PATTERN s"

text \<open>One iteration of the loop of \<^verbatim>\<open>classify_road_quality\<close> on (highway\_dist, total\_dist).\<close>

definition quality_step :: "step \<Rightarrow> rat \<times> rat \<Rightarrow> rat \<times> rat" where
  "quality_step st acc =
     (case acc of (highway_dist, total_dist) \<Rightarrow>
        let d = step_distance st;
            total_dist = total_dist + d
        in if is_highway_name (step_name st @ '' '' @ step_ref st)
           then (highway_dist + d, total_dist)
           else (highway_dist, total_dist))"

definition classify_road_quality :: "route \<Rightarrow> quality" where
  "classify_road_quality r =
     (let steps = concat (map leg_steps (legs r))
      in case fold quality_step steps (0, 0) of (highway_dist, total_dist) \<Rightarrow>
           if total_dist \<le> 0 then Average
           else let ratio = highway_dist / total_dist
                in if ratio \<ge> 6 / 10 then Excellent
                   else if ratio \<ge> 3 / 10 then Good
                   else Average)"

definition extract_navigation_steps :: "route \<Rightarrow> step list" where
  "extract_navigation_steps r =
     concat (map (\<lambda>l. map (\<lambda>st.
        let m = step_maneuver st
        in \<lparr>step_distance = step_distance st, step_duration = step_duration st,
            step_name = step_name st, step_ref = step_ref st,
            step_maneuver = \<lparr>mtype = mtype m, modifier = modifier m,
                              location = location m\<rparr>\<rparr>) (leg_steps l)) (legs r))"

text \<open>
  \<^verbatim>\<open>list.sort\<close> and \<^verbatim>\<open>sorted\<close> with \<^verbatim>\<open>reverse=True\<close>: Python's sort is stable, and stays so
  when reversed. The model inserts each element, from the last to the first, in front of
  the first element whose key is not greater.
\<close>

fun insort_desc :: "('a \<Rightarrow> rat) \<Rightarrow> 'a \<Rightarrow> 'a list \<Rightarrow> 'a list" where
  "insort_desc key x [] = [x]"
| "insort_desc key x (y # ys) =
     (if key y \<le> key x then x # y # ys else y # insort_desc key x ys)"

definition sort_desc :: "('a \<Rightarrow> rat) \<Rightarrow> 'a list \<Rightarrow> 'a list" where
  "sort_desc key xs = foldr (insort_desc key) xs []"

text \<open>\<^verbatim>\<open>max(xs, key=f)\<close> on a non-empty sequence: the first element of greatest key.\<close>

definition py_max :: "('a \<Rightarrow> rat) \<Rightarrow> 'a \<Rightarrow> 'a list \<Rightarrow> 'a" where
  "py_max key x xs = fold (\<lambda>y best. if key best < key y then y else best) xs x"

text \<open>
  The dictionary \<^verbatim>\<open>road_distances\<close> keeps its keys in insertion order: an association
  list, a new key appended, a known key updated in place.
\<close>

fun add_distance :: "string \<Rightarrow> rat \<Rightarrow> (string \<times> rat) list \<Rightarrow> (string \<times> rat) list" where
  "add_distance name d [] = [(name, 0 + d)]"
| "add_distance name d ((k, v) # kvs) =
     (if k = name then (k, v + d) # kvs else (k, v) # add_distance name d kvs)"

definition road_distances :: "route \<Rightarrow> (string \<times> rat) list" where
  "road_distances r =
     fold (\<lambda>st acc. let name = strip (step_name st)
                     in if name \<noteq> [] then add_distance name (step_distance st) acc else acc)
          (concat (map leg_steps (legs r))) []"

definition extract_road_summary :: "route \<Rightarrow> string" where
  "extract_road_summary r =
     (case road_distances r of
        [] \<Rightarrow> ''Local Roads''
      | kv # kvs \<Rightarrow>
          (case filter (\<lambda>(name, d). is_highway_name name) (sort_desc snd (kv # kvs)) of
             (name, d) # _ \<Rightarrow> name
           | [] \<Rightarrow> fst (py_max snd kv kvs)))"

subsection \<open>The pipeline\<close>

record SafetyBreakdown =
  bd_highway_ratio :: rat
  bd_turn_density :: rat
  bd_longest_isolated_segment_km :: rat
  bd_traffic_level :: traffic
  bd_penalties :: penalties

record RouteSummary =
  rs_distance_km :: rat
  rs_duration_hours :: rat

record RouteInfo =
  route_id :: string
  route_name :: string
  info_distance_km :: rat
  duration_minutes :: rat
  safety_score :: rat
  road_summary :: string
  info_traffic_level :: traffic
  road_quality :: quality
  info_geometry :: geojson
  steps :: "step list"
  route_summary :: RouteSummary
  breakdown :: SafetyBreakdown

record RouteResponse =
  routes :: "RouteInfo list"
  origin_coords :: coords
  destination_coords :: coords
  status :: string

definition enumerate :: "'a list \<Rightarrow> (nat \<times> 'a) list" where
  "enumerate xs = zip [0..<length xs] xs"

text \<open>The body of the loop of step 3, for the candidate at index \<open>i\<close>.\<close>

definition process_route :: "SafetyMode \<Rightarrow> nat \<Rightarrow> route \<Rightarrow> RouteInfo" where
  "process_route mode i r =
     (let safety_result = compute_safety r mode;
          duration_min = py_round (route_duration r / 60) 0;
          quality = classify_road_quality r;
          summary = extract_road_summary r;
          geom = (case geometry r of
                    Some g \<Rightarrow> g
                  | None \<Rightarrow> \<lparr>gtype = ''LineString'', coordinates = []\<rparr>);
          nav_steps = extract_navigation_steps r
      in \<lparr>route_id = ''route_'' @ str_nat (i + 1),
          route_name = [],
          info_distance_km = distance_km safety_result,
          duration_minutes = duration_min,
          safety_score = score safety_result,
          road_summary = summary,
          info_traffic_level = traffic_level safety_result,
          road_quality = quality,
          info_geometry = geom,
          steps = nav_steps,
          route_summary = \<lparr>rs_distance_km = distance_km safety_result,
                            rs_duration_hours = duration_hours safety_result\<rparr>,
          breakdown = \<lparr>bd_highway_ratio = highway_ratio safety_result,
                        bd_turn_density = turn_density safety_result,
                        bd_longest_isolated_segment_km =
                          longest_isolated_segment_km safety_result,
                        bd_traffic_level = traffic_level safety_result,
                        bd_penalties = result_penalties safety_result\<rparr>\<rparr>)"

definition name_labels :: "string list" where
  "name_labels = [''Recommended Route'', ''Scenic Route'', ''Shortest Route'']"

text \<open>Step 5: the names, by position in the sorted list.\<close>

definition assign_names :: "RouteInfo list \<Rightarrow> RouteInfo list" where
  "assign_names processed =
     map (\<lambda>(i, p). p\<lparr>route_name :=
                        (if i < length name_labels then name_labels ! i
                         else ''Route '' @ str_nat (i + 1))\<rparr>)
         (enumerate processed)"

text \<open>Steps 3 to 5 on the provider's candidates: score the first three, sort, name.\<close>

definition rank_routes :: "SafetyMode \<Rightarrow> route list \<Rightarrow> RouteInfo list" where
  "rank_routes mode raw_routes =
     (let processed = map (\<lambda>(i, r). process_route mode i r) (enumerate (take 3 raw_routes));
          processed = sort_desc safety_score processed
      in assign_names processed)"

definition get_routes ::
  "world \<Rightarrow> cache \<Rightarrow> string \<Rightarrow> string \<Rightarrow> SafetyMode \<Rightarrow> (exn + RouteResponse) \<times> cache" where
  "get_routes w c origin destination mode =
     (case geocode w c origin of
        (Inl e, c1) \<Rightarrow> (Inl e, c1)
      | (Inr from_coords, c1) \<Rightarrow>
          (case geocode w c1 destination of
             (Inl e, c2) \<Rightarrow> (Inl e, c2)
           | (Inr to_coords, c2) \<Rightarrow>
               (case fetch_osrm_routes w from_coords to_coords of
                  Inl e \<Rightarrow> (Inl e, c2)
                | Inr raw_routes \<Rightarrow>
                    if raw_routes = [] then (Inl RuntimeError, c2)
                    else (Inr \<lparr>routes = rank_routes mode raw_routes,
                               origin_coords = from_coords,
                               destination_coords = to_coords,
                               status = ''success''\<rparr>, c2))))"

section \<open>routers/route.py\<close>

record RouteRequest =
  origin :: string
  destination :: string
  req_mode :: string

text \<open>
  The mode check of the endpoint: an empty field means day, anything else is trimmed and
  lower-cased and must be one of the two mode names.
\<close>

definition validate_mode :: "string \<Rightarrow> SafetyMode option" where
  "validate_mode m =
     (let mode = (if m \<noteq> [] then lower (strip m) else ''day'')
      in if mode = ''day'' then Some Day
         else if mode = ''night'' then Some Night
         else None)"

text \<open>The \<^verbatim>\<open>except\<close> clauses of the endpoint, in their order.\<close>

definition status_of :: "exn \<Rightarrow> nat" where
  "status_of e =
     (if is_ValueError e then 422
      else if is_RuntimeError e then 502
      else 500)"

text \<open>The endpoint answers a status code (an \<^verbatim>\<open>HTTPException\<close>) or the response.\<close>

definition route_endpoint ::
  "world \<Rightarrow> cache \<Rightarrow> RouteRequest \<Rightarrow> (nat + RouteResponse) \<times> cache" where
  "route_endpoint w c request =
     (if strip (origin request) = [] \<or> strip (destination request) = [] then (Inl 422, c)
      else case validate_mode (req_mode request) of
             None \<Rightarrow> (Inl 422, c)
           | Some mode \<Rightarrow>
               (case get_routes w c (strip (origin request)) (strip (destination request)) mode of
                  (Inr result, c') \<Rightarrow> (Inr result, c')
                | (Inl e, c') \<Rightarrow> (Inl (status_of e), c')))"

section \<open>Example data\<close>

definition a_step :: "rat \<Rightarrow> string \<Rightarrow> string \<Rightarrow> string \<Rightarrow> step" where
  "a_step d n rf t =
     \<lparr>step_distance = d, step_duration = 0, step_name = n, step_ref = rf,
      step_maneuver = \<lparr>mtype = t, modifier = [], location = []\<rparr>\<rparr>"

definition a_route :: "rat \<Rightarrow> rat \<Rightarrow> step list \<Rightarrow> route" where
  "a_route d t sts =
     \<lparr>route_distance = d, route_duration = t, legs = [\<lparr>leg_steps = sts\<rparr>], geometry = None\<rparr>"

text \<open>
  520 km in 8 hours, 416 km of it on a national highway, three turns, and one unnamed
  stretch of 10 km.
\<close>

definition long_route :: route where
  "long_route =
     a_route 520000 28800
       [a_step 416000 ''NH 48'' [] ''depart'',
        a_step 10000 [] [] ''turn'',
        a_step 47000 ''Ring Road'' [] ''turn'',
        a_step 47000 ''MG Road'' [] ''turn'',
        a_step 0 ''MG Road'' [] ''arrive'']"

text \<open>60 km in an hour and a half, half of it unnamed, none of it on a highway.\<close>

definition rural_route :: route where
  "rural_route =
     a_route 60000 5400
       [a_step 30000 [] [] ''depart'',
        a_step 30000 ''Village Road'' [] ''turn'',
        a_step 0 ''Village Road'' [] ''arrive'']"




text \<open>
  60 km in 9 hours over 121 unnamed steps of 500 m, each of them a turn: every factor
  of the score is at its worst.
\<close>

definition remote_route :: route where
  "remote_route = a_route 60000 32400 (replicate 121 (a_step 500 [] [] ''turn''))"



definition offline_world :: world where
  "offline_world = \<lparr>nominatim = (\<lambda>q. TransportFailure), osrm = (\<lambda>a b. TransportFailure)\<rparr>"

definition barren_world :: world where
  "barren_world =
     \<lparr>nominatim = (\<lambda>q. Json []),
      osrm = (\<lambda>a b. Json \<lparr>osrm_code = Some ''NoRoute'', osrm_routes = []\<rparr>)\<rparr>"


definition atlantis_request :: RouteRequest where
  "atlantis_request = \<lparr>origin = ''Atlantis'', destination = ''Delhi'', req_mode = ''day''\<rparr>"


section \<open>Properties of the safety engine\<close>

subsection \<open>Rounding and truncation at the values the engine uses\<close>

lemma round_half_even_of_int: "round_half_even (of_int k) = k"
  by (simp add: round_half_even_def)

lemma py_int_night_values:
  "py_int (of_int (- 7) * (3 / 2)) = - 10"
  "py_int (of_int (- 15) * (3 / 2)) = - 22"
  "py_int (of_int 0 * (3 / 2)) = 0"
  "py_int (of_int (- 5) * (13 / 10)) = - 6"
  "py_int (of_int (- 10) * (13 / 10)) = - 13"
  by (simp_all add: py_int_def floor_eq_iff)

subsection \<open>The values each penalty can take\<close>

lemma pen_road_type_day:
  "pen_road_type (compute_penalties r Day) \<in> {0, - 5, - 10}"
  by (simp add: compute_penalties_def Let_def)

lemma pen_road_type_night:
  "pen_road_type (compute_penalties r Night) =
     (let d = pen_road_type (compute_penalties r Day)
      in if d = - 5 then - 6 else if d = - 10 then - 13 else 0)"
  by (simp add: compute_penalties_def Let_def py_int_def floor_eq_iff)

lemma pen_isolation_day:
  "pen_isolation (compute_penalties r Day) \<in> {0, - 7, - 15}"
  by (simp add: compute_penalties_def Let_def)

lemma pen_isolation_night:
  "pen_isolation (compute_penalties r Night) =
     (let d = pen_isolation (compute_penalties r Day)
      in if d = - 7 then - 10 else if d = - 15 then - 22 else 0)"
  by (simp add: compute_penalties_def Let_def py_int_def floor_eq_iff)

lemma pen_turn_density_values:
  "pen_turn_density (compute_penalties r m) \<in> {0, - 5, - 10}"
  by (simp add: compute_penalties_def Let_def)

lemma pen_duration_values:
  "pen_duration (compute_penalties r m) \<in> {0, - 5, - 10}"
  by (simp add: compute_penalties_def Let_def)

lemma pen_traffic_values:
  "pen_traffic (compute_penalties r m) \<in> {0, - 5, - 10}"
  by (simp add: compute_penalties_def Let_def split: traffic.split)

lemma pen_road_type_bounds:
  "- 13 \<le> pen_road_type (compute_penalties r m) \<and> pen_road_type (compute_penalties r m) \<le> 0"
proof (cases m)
  case Day
  then show ?thesis using pen_road_type_day [of r] by auto
next
  case Night
  then show ?thesis using pen_road_type_day [of r] pen_road_type_night [of r]
    by (auto simp: Let_def)
qed

lemma pen_isolation_bounds:
  "- 22 \<le> pen_isolation (compute_penalties r m) \<and> pen_isolation (compute_penalties r m) \<le> 0"
proof (cases m)
  case Day
  then show ?thesis using pen_isolation_day [of r] by auto
next
  case Night
  then show ?thesis using pen_isolation_day [of r] pen_isolation_night [of r]
    by (auto simp: Let_def)
qed

lemma raw_score_bounds: "35 \<le> raw_score r m \<and> raw_score r m \<le> 100"
  using pen_road_type_bounds [of r m] pen_isolation_bounds [of r m]
    pen_turn_density_values [of r m] pen_duration_values [of r m] pen_traffic_values [of r m]
  unfolding raw_score_def sum_values_def by auto

lemma score_eq: "score (compute_safety r m) = of_int (max 10 (raw_score r m)) / 10"
  by (simp add: compute_safety_def Let_def py_round_def round_half_even_of_int)

lemma result_penalties_eq: "result_penalties (compute_safety r m) = compute_penalties r m"
  by (simp add: compute_safety_def Let_def)

subsection \<open>The score stays between 1 and 10\<close>

text \<open>
  Claim C1. For every route and either mode, the score that \<open>compute_safety\<close> returns is
  at least 1.0 and at most 10.0: the raw total is 100 plus penalties that are never
  positive, it is clamped below at 10, and divided by 10.
\<close>

theorem score_between_1_and_10:
  "1 \<le> score (compute_safety r m) \<and> score (compute_safety r m) \<le> 10"
proof -
  have "10 \<le> max 10 (raw_score r m)" by simp
  moreover have "max 10 (raw_score r m) \<le> 100" using raw_score_bounds [of r m] by simp
  ultimately show ?thesis unfolding score_eq by (simp add: le_divide_eq divide_le_eq)
qed

subsection \<open>The floor of the score is never reached\<close>

lemma remote_route_penalties:
  "compute_penalties remote_route Night =
     \<lparr>pen_road_type = - 13, pen_turn_density = - 10, pen_isolation = - 22,
      pen_duration = - 10, pen_traffic = - 10\<rparr>"
  by code_simp

text \<open>
  Claim C9. For every route and either mode the raw score is at least 35: the penalties
  are at least -13 (road type), -10 (turn density), -22 (isolation), -10 (duration) and
  -10 (traffic), and a route scored at night takes them all at once. So clamping the raw
  score below at 10 changes nothing, and the score is at least 3.5.
\<close>

theorem raw_score_at_least_35:
  "35 \<le> raw_score r m
   \<and> max 10 (raw_score r m) = raw_score r m
   \<and> 7 / 2 \<le> score (compute_safety r m)
   \<and> - 13 \<le> pen_road_type (result_penalties (compute_safety r m))
   \<and> - 10 \<le> pen_turn_density (result_penalties (compute_safety r m))
   \<and> - 22 \<le> pen_isolation (result_penalties (compute_safety r m))
   \<and> - 10 \<le> pen_duration (result_penalties (compute_safety r m))
   \<and> - 10 \<le> pen_traffic (result_penalties (compute_safety r m))
   \<and> raw_score remote_route Night = 35"
proof -
  have b: "35 \<le> raw_score r m" using raw_score_bounds [of r m] by simp
  then have c: "max 10 (raw_score r m) = raw_score r m" by simp
  have "(35::rat) \<le> of_int (raw_score r m)" using b by linarith
  then have s: "7 / 2 \<le> score (compute_safety r m)" unfolding score_eq c by simp
  have p: "- 13 \<le> pen_road_type (result_penalties (compute_safety r m))"
    "- 10 \<le> pen_turn_density (result_penalties (compute_safety r m))"
    "- 22 \<le> pen_isolation (result_penalties (compute_safety r m))"
    "- 10 \<le> pen_duration (result_penalties (compute_safety r m))"
    "- 10 \<le> pen_traffic (result_penalties (compute_safety r m))"
    unfolding result_penalties_eq
    using pen_road_type_bounds [of r m] pen_isolation_bounds [of r m]
      pen_turn_density_values [of r m] pen_duration_values [of r m]
      pen_traffic_values [of r m]
    by auto
  have w: "raw_score remote_route Night = 35"
    by (simp add: raw_score_def sum_values_def remote_route_penalties)
  from b c s p w show ?thesis by blast
qed

subsection \<open>Night mode never lowers a penalty's magnitude\<close>

text \<open>
  Claim C6. For every route, the isolation penalty of night mode is at least as large in
  magnitude as that of day mode, and when the day-mode road type penalty is negative,
  the night-mode road type penalty is at least as large in magnitude.
\<close>

theorem night_penalties_dominate:
  "\<bar>pen_isolation (result_penalties (compute_safety r Day))\<bar>
     \<le> \<bar>pen_isolation (result_penalties (compute_safety r Night))\<bar>
   \<and> (pen_road_type (result_penalties (compute_safety r Day)) < 0 \<longrightarrow>
        \<bar>pen_road_type (result_penalties (compute_safety r Day))\<bar>
          \<le> \<bar>pen_road_type (result_penalties (compute_safety r Night))\<bar>)"
  unfolding result_penalties_eq
  using pen_isolation_day [of r] pen_isolation_night [of r]
    pen_road_type_day [of r] pen_road_type_night [of r]
  by (auto simp: Let_def)

theorem night_penalties_dominate_witness:
  "pen_road_type (result_penalties (compute_safety rural_route Day)) < 0
   \<and> \<bar>pen_road_type (result_penalties (compute_safety rural_route Day))\<bar>
       \<le> \<bar>pen_road_type (result_penalties (compute_safety rural_route Night))\<bar>
   \<and> \<bar>pen_isolation (result_penalties (compute_safety rural_route Day))\<bar>
       \<le> \<bar>pen_isolation (result_penalties (compute_safety rural_route Night))\<bar>"
proof -
  have h: "pen_road_type (result_penalties (compute_safety rural_route Day)) < 0"
    by code_simp
  show ?thesis using h night_penalties_dominate [of rural_route] by blast
qed

subsection \<open>The scenario of 520 km in 8 hours\<close>

lemma long_route_steps:
  "extract_steps long_route =
     [a_step 416000 ''NH 48'' [] ''depart'', a_step 10000 [] [] ''turn'',
      a_step 47000 ''Ring Road'' [] ''turn'', a_step 47000 ''MG Road'' [] ''turn'',
      a_step 0 ''MG Road'' [] ''arrive'']"
  by (simp add: extract_steps_def long_route_def a_route_def)

lemma long_route_highway_ratio:
  "compute_highway_ratio (extract_steps long_route) (route_distance long_route) = 4 / 5"
  by code_simp

lemma long_route_turns: "length (filter is_turn (extract_steps long_route)) = 3"
  by code_simp

lemma long_route_isolation: "compute_isolation (extract_steps long_route) = 10"
  by code_simp

lemma long_route_totals:
  "route_distance long_route = 520000" "route_duration long_route = 28800"
  by (simp_all add: long_route_def a_route_def)

lemma scenario_penalties:
  assumes "route_distance r = 520000" and "route_duration r = 28800"
    and "compute_highway_ratio (extract_steps r) (route_distance r) = 4 / 5"
    and "length (filter is_turn (extract_steps r)) = 3"
    and "compute_isolation (extract_steps r) = 10"
  shows "compute_penalties r Day =
           \<lparr>pen_road_type = 0, pen_turn_density = 0, pen_isolation = 0,
            pen_duration = - 5, pen_traffic = - 5\<rparr>"
  using assms
  by (simp add: compute_penalties_def Let_def compute_turn_density_def classify_traffic_def)

text \<open>
  The scenario as the claim has it fails on the code: a route of exactly 8 hours is not
  over 8 hours but it is over 6, so it takes the duration penalty of -5; the raw total
  is 90 and the score 9.0, not 95 and 9.5.
\<close>

theorem scenario_counterexample:
  "route_distance long_route = 520000 \<and> route_duration long_route = 28800
   \<and> compute_highway_ratio (extract_steps long_route) (route_distance long_route) = 4 / 5
   \<and> length (filter is_turn (extract_steps long_route)) = 3
   \<and> compute_isolation (extract_steps long_route) = 10
   \<and> pen_duration (result_penalties (compute_safety long_route Day)) = - 5
   \<and> raw_score long_route Day \<noteq> 95
   \<and> score (compute_safety long_route Day) \<noteq> 19 / 2"
proof -
  have p: "compute_penalties long_route Day =
           \<lparr>pen_road_type = 0, pen_turn_density = 0, pen_isolation = 0,
            pen_duration = - 5, pen_traffic = - 5\<rparr>"
    using long_route_totals long_route_highway_ratio long_route_turns long_route_isolation
    by (rule scenario_penalties)
  have r: "raw_score long_route Day = 90"
    by (simp add: raw_score_def sum_values_def p)
  show ?thesis
    using long_route_totals long_route_highway_ratio long_route_turns long_route_isolation
    by (simp add: result_penalties_eq p r score_eq)
qed

text \<open>
  Claim C5, amended. A route of 520,000 m and 28,800 s with highway ratio 0.8, three
  turns and a longest isolated segment of 10 km, scored in day mode, is classified
  Moderate and takes the penalties road type 0, turn density 0, isolation 0, duration -5
  and traffic -5: the raw total is 90 and the score 9.0.
\<close>

theorem scenario_520km_day:
  assumes "route_distance r = 520000" and "route_duration r = 28800"
    and "compute_highway_ratio (extract_steps r) (route_distance r) = 4 / 5"
    and "length (filter is_turn (extract_steps r)) = 3"
    and "compute_isolation (extract_steps r) = 10"
  shows "traffic_level (compute_safety r Day) = Moderate
    \<and> result_penalties (compute_safety r Day) =
        \<lparr>pen_road_type = 0, pen_turn_density = 0, pen_isolation = 0,
         pen_duration = - 5, pen_traffic = - 5\<rparr>
    \<and> raw_score r Day = 90
    \<and> score (compute_safety r Day) = 9"
proof -
  have t: "traffic_level (compute_safety r Day) = Moderate"
    using assms(1,2) by (simp add: compute_safety_def Let_def classify_traffic_def)
  have p: "compute_penalties r Day =
           \<lparr>pen_road_type = 0, pen_turn_density = 0, pen_isolation = 0,
            pen_duration = - 5, pen_traffic = - 5\<rparr>"
    using assms by (rule scenario_penalties)
  have r: "raw_score r Day = 90"
    by (simp add: raw_score_def sum_values_def p)
  show ?thesis
    by (simp add: t result_penalties_eq p r score_eq)
qed

theorem scenario_520km_day_witness:
  "route_distance long_route = 520000 \<and> route_duration long_route = 28800
   \<and> compute_highway_ratio (extract_steps long_route) (route_distance long_route) = 4 / 5
   \<and> length (filter is_turn (extract_steps long_route)) = 3
   \<and> compute_isolation (extract_steps long_route) = 10
   \<and> traffic_level (compute_safety long_route Day) = Moderate
   \<and> raw_score long_route Day = 90
   \<and> score (compute_safety long_route Day) = 9"
  using long_route_totals long_route_highway_ratio long_route_turns long_route_isolation
    scenario_520km_day [OF long_route_totals long_route_highway_ratio long_route_turns
      long_route_isolation]
  by simp

subsection \<open>Isolation of a route without named steps\<close>








section \<open>Properties of the ranking\<close>

subsection \<open>The descending sort\<close>



lemma set_insort_desc: "set (insort_desc key x xs) = insert x (set xs)"
  by (induction xs) auto

lemma sorted_insort_desc:
  "sorted_wrt (\<lambda>a b. key b \<le> key a) xs \<Longrightarrow>
   sorted_wrt (\<lambda>a b. key b \<le> key a) (insort_desc key x xs)"
  by (induction xs) (auto simp: set_insort_desc)

lemma sorted_sort_desc: "sorted_wrt (\<lambda>a b. key b \<le> key a) (sort_desc key xs)"
  by (induction xs) (simp_all add: sort_desc_def sorted_insort_desc)

lemma filter_insort_desc:
  "filter (\<lambda>y. key y = k) (insort_desc key x xs) =
     (if key x = k then x # filter (\<lambda>y. key y = k) xs else filter (\<lambda>y. key y = k) xs)"
  by (induction xs) auto

lemma sort_desc_stable:
  "filter (\<lambda>y. key y = k) (sort_desc key xs) = filter (\<lambda>y. key y = k) xs"
  by (induction xs) (simp_all add: sort_desc_def filter_insort_desc)

subsection \<open>The names change nothing else\<close>

lemma enumerate_length: "length (enumerate xs) = length xs"
  by (simp add: enumerate_def)

lemma enumerate_nth: "i < length xs \<Longrightarrow> enumerate xs ! i = (i, xs ! i)"
  by (simp add: enumerate_def)

lemma assign_names_length: "length (assign_names ps) = length ps"
  by (simp add: assign_names_def enumerate_length)

lemma assign_names_nth:
  "i < length ps \<Longrightarrow>
   assign_names ps ! i =
     (ps ! i)\<lparr>route_name := (if i < length name_labels then name_labels ! i
                              else ''Route '' @ str_nat (i + 1))\<rparr>"
  by (simp add: assign_names_def enumerate_length enumerate_nth)

lemma assign_names_same:
  "list_all2 (\<lambda>q p. q\<lparr>route_name := []\<rparr> = p\<lparr>route_name := []\<rparr>) (assign_names ps) ps"
  by (simp add: list_all2_conv_all_nth assign_names_length assign_names_nth)

lemma unnamed_fields:
  assumes "q\<lparr>route_name := []\<rparr> = p\<lparr>route_name := []\<rparr>"
  shows "safety_score q = safety_score p" and "route_id q = route_id p"
proof -
  have "safety_score (q\<lparr>route_name := []\<rparr>) = safety_score (p\<lparr>route_name := []\<rparr>)"
    by (simp only: assms)
  then show "safety_score q = safety_score p" by simp
  have "route_id (q\<lparr>route_name := []\<rparr>) = route_id (p\<lparr>route_name := []\<rparr>)"
    by (simp only: assms)
  then show "route_id q = route_id p" by simp
qed

lemma same_filter:
  assumes "list_all2 (\<lambda>q p. q\<lparr>route_name := []\<rparr> = p\<lparr>route_name := []\<rparr>) qs ps"
  shows "map (\<lambda>p. p\<lparr>route_name := []\<rparr>) (filter (\<lambda>p. safety_score p = k) qs)
       = map (\<lambda>p. p\<lparr>route_name := []\<rparr>) (filter (\<lambda>p. safety_score p = k) ps)"
  using assms
proof (induction rule: list_all2_induct)
  case Nil
  then show ?case by simp
next
  case (Cons q qs p ps)
  then show ?case using unnamed_fields(1) [of q p] by simp
qed

lemma same_map:
  assumes "list_all2 (\<lambda>q p. q\<lparr>route_name := []\<rparr> = p\<lparr>route_name := []\<rparr>) qs ps"
  shows "map (\<lambda>p. p\<lparr>route_name := []\<rparr>) qs = map (\<lambda>p. p\<lparr>route_name := []\<rparr>) ps"
    and "map safety_score qs = map safety_score ps"
    and "map route_id qs = map route_id ps"
  using assms
proof (induction rule: list_all2_induct)
  case Nil
  {
    case 1 show ?case by simp
  next
    case 2 show ?case by simp
  next
    case 3 show ?case by simp
  }
next
  case (Cons q qs p ps)
  {
    case 1 show ?case using Cons by simp
  next
    case 2 show ?case using Cons unnamed_fields(1) [of q p] by simp
  next
    case 3 show ?case using Cons unnamed_fields(2) [of q p] by simp
  }
qed

lemma sorted_wrt_map_score:
  "sorted_wrt (\<lambda>a b. safety_score b \<le> safety_score a) ps
   = sorted_wrt (\<lambda>a b. b \<le> a) (map safety_score ps)"
  by (simp add: sorted_wrt_map)

subsection \<open>The ranking is sorted and stable\<close>

text \<open>
  Claim C7. For every list of scored candidates, the list that sorting and naming return
  is ordered by non-increasing safety score, and the candidates of any one score come in
  the order they had in the input (they are the input's candidates, the name apart,
  which is given after the sort). The pipeline ranks its scored candidates in exactly
  this way.
\<close>

theorem ranking_sorted_and_stable:
  "sorted_wrt (\<lambda>a b. safety_score b \<le> safety_score a)
     (assign_names (sort_desc safety_score ps))
   \<and> (\<forall>k. map (\<lambda>p. p\<lparr>route_name := []\<rparr>)
              (filter (\<lambda>p. safety_score p = k) (assign_names (sort_desc safety_score ps)))
          = map (\<lambda>p. p\<lparr>route_name := []\<rparr>) (filter (\<lambda>p. safety_score p = k) ps))
   \<and> rank_routes mode raw
       = assign_names (sort_desc safety_score
           (map (\<lambda>(i, r). process_route mode i r) (enumerate (take 3 raw))))"
proof -
  let ?sorted = "sort_desc safety_score ps"
  have same: "list_all2 (\<lambda>q p. q\<lparr>route_name := []\<rparr> = p\<lparr>route_name := []\<rparr>)
                (assign_names ?sorted) ?sorted"
    by (rule assign_names_same)
  have "sorted_wrt (\<lambda>a b. safety_score b \<le> safety_score a) ?sorted"
    by (rule sorted_sort_desc)
  then have ordered: "sorted_wrt (\<lambda>a b. safety_score b \<le> safety_score a) (assign_names ?sorted)"
    by (simp only: sorted_wrt_map_score same_map(2) [OF same])
  have stable: "map (\<lambda>p. p\<lparr>route_name := []\<rparr>)
                  (filter (\<lambda>p. safety_score p = k) (assign_names ?sorted))
              = map (\<lambda>p. p\<lparr>route_name := []\<rparr>) (filter (\<lambda>p. safety_score p = k) ps)" for k
    by (simp only: same_filter [OF same] sort_desc_stable)
  have pipeline: "rank_routes mode raw
       = assign_names (sort_desc safety_score
           (map (\<lambda>(i, r). process_route mode i r) (enumerate (take 3 raw))))"
    by (simp add: rank_routes_def Let_def)
  from ordered stable pipeline show ?thesis by blast
qed

subsection \<open>The ids follow the provider's order\<close>
















section \<open>Properties of road quality\<close>




section \<open>Properties of the error mapping\<close>

lemma endpoint_failure:
  assumes "strip (origin req) \<noteq> []" and "strip (destination req) \<noteq> []"
    and "validate_mode (req_mode req) = Some mode"
    and "get_routes w c (strip (origin req)) (strip (destination req)) mode = (Inl e, c')"
  shows "route_endpoint w c req = (Inl (status_of e), c')"
  using assms by (simp add: route_endpoint_def)

lemma atlantis_key: "lower (strip ''Atlantis'') = ''atlantis''"
  by code_simp

lemma atlantis_not_cached: "seeded_cache ''atlantis'' = None"
  by code_simp

lemma atlantis_request_valid:
  "strip (origin atlantis_request) = ''Atlantis''"
  "strip (destination atlantis_request) = ''Delhi''"
  "validate_mode (req_mode atlantis_request) = Some Day"
  by code_simp+


subsection \<open>A place that cannot be resolved\<close>

text \<open>
  The claim as stated fails on the code: when the geocoding call fails at the transport
  level, the exception of the HTTP client is neither a \<open>ValueError\<close> nor a
  \<open>RuntimeError\<close>, and the endpoint answers 500.
\<close>

theorem geocode_failure_counterexample:
  "fst (geocode offline_world seeded_cache ''Atlantis'') = Inl TransportError
   \<and> fst (route_endpoint offline_world seeded_cache atlantis_request) = Inl 500"
proof -
  have g: "geocode offline_world seeded_cache ''Atlantis'' = (Inl TransportError, seeded_cache)"
    by (simp add: geocode_def Let_def atlantis_key atlantis_not_cached offline_world_def)
  then have "get_routes offline_world seeded_cache ''Atlantis'' ''Delhi'' Day
               = (Inl TransportError, seeded_cache)"
    by (simp add: get_routes_def)
  then have "route_endpoint offline_world seeded_cache atlantis_request
               = (Inl (status_of TransportError), seeded_cache)"
    using atlantis_request_valid by (intro endpoint_failure) simp_all
  then show ?thesis
    by (simp add: g status_of_def is_ValueError_def is_RuntimeError_def)
qed

text \<open>
  Claim C2, amended. For every place name that is not in the cache and for which the
  geocoding service returns an empty result, the resolution fails with a \<open>ValueError\<close>
  (the PlaceNotFound kind) and leaves the cache as it was; and whenever the resolution
  of the origin, or of the destination after the origin has resolved, fails with that
  error, a well-formed request is answered with status 422.
\<close>

theorem unresolved_place_is_422:
  "(c (lower (strip place_name)) = None \<and> nominatim w place_name = Json [] \<longrightarrow>
      geocode w c place_name = (Inl ValueError, c))
   \<and> (strip (origin req) \<noteq> [] \<and> strip (destination req) \<noteq> []
       \<and> validate_mode (req_mode req) \<noteq> None
       \<and> (fst (geocode w c (strip (origin req))) = Inl ValueError
          \<or> (\<exists>a c1. geocode w c (strip (origin req)) = (Inr a, c1)
                \<and> fst (geocode w c1 (strip (destination req))) = Inl ValueError)) \<longrightarrow>
      fst (route_endpoint w c req) = Inl 422)"
proof -
  have first: "geocode w c place_name = (Inl ValueError, c)"
    if "c (lower (strip place_name)) = None" and "nominatim w place_name = Json []"
    using that by (simp add: geocode_def Let_def)
  have second: "fst (route_endpoint w c req) = Inl 422"
    if v: "strip (origin req) \<noteq> []" "strip (destination req) \<noteq> []"
      "validate_mode (req_mode req) \<noteq> None"
      and f: "fst (geocode w c (strip (origin req))) = Inl ValueError
          \<or> (\<exists>a c1. geocode w c (strip (origin req)) = (Inr a, c1)
                \<and> fst (geocode w c1 (strip (destination req))) = Inl ValueError)"
  proof -
    from v(3) obtain mode where m: "validate_mode (req_mode req) = Some mode" by blast
    have "\<exists>c'. get_routes w c (strip (origin req)) (strip (destination req)) mode
                 = (Inl ValueError, c')"
      using f
    proof
      assume "fst (geocode w c (strip (origin req))) = Inl ValueError"
      then show ?thesis
        by (cases "geocode w c (strip (origin req))") (simp add: get_routes_def)
    next
      assume "\<exists>a c1. geocode w c (strip (origin req)) = (Inr a, c1)
                \<and> fst (geocode w c1 (strip (destination req))) = Inl ValueError"
      then obtain a c1 where o: "geocode w c (strip (origin req)) = (Inr a, c1)"
        and d: "fst (geocode w c1 (strip (destination req))) = Inl ValueError" by blast
      from d show ?thesis
        by (cases "geocode w c1 (strip (destination req))") (simp add: get_routes_def o)
    qed
    then obtain c' where "get_routes w c (strip (origin req)) (strip (destination req)) mode
                 = (Inl ValueError, c')" by blast
    then have "route_endpoint w c req = (Inl (status_of ValueError), c')"
      using v(1,2) m by (intro endpoint_failure)
    then show ?thesis by (simp add: status_of_def is_ValueError_def)
  qed
  from first second show ?thesis by blast
qed

theorem unresolved_place_is_422_witness:
  "seeded_cache (lower (strip ''Atlantis'')) = None
   \<and> nominatim barren_world ''Atlantis'' = Json []
   \<and> geocode barren_world seeded_cache ''Atlantis'' = (Inl ValueError, seeded_cache)
   \<and> strip (origin atlantis_request) \<noteq> []
   \<and> strip (destination atlantis_request) \<noteq> []
   \<and> validate_mode (req_mode atlantis_request) \<noteq> None
   \<and> fst (geocode barren_world seeded_cache (strip (origin atlantis_request))) = Inl ValueError
   \<and> fst (route_endpoint barren_world seeded_cache atlantis_request) = Inl 422"
proof -
  have h1: "seeded_cache (lower (strip ''Atlantis'')) = None"
    by (simp add: atlantis_key atlantis_not_cached)
  have h2: "nominatim barren_world ''Atlantis'' = Json []"
    by (simp add: barren_world_def)
  have h3: "strip (origin atlantis_request) \<noteq> []" "strip (destination atlantis_request) \<noteq> []"
    "validate_mode (req_mode atlantis_request) \<noteq> None"
    by (simp_all add: atlantis_request_valid)
  note inst = unresolved_place_is_422 [of seeded_cache "''Atlantis''" barren_world atlantis_request]
  from inst h1 h2
  have g: "geocode barren_world seeded_cache ''Atlantis'' = (Inl ValueError, seeded_cache)"
    by blast
  then have h4: "fst (geocode barren_world seeded_cache (strip (origin atlantis_request)))
                   = Inl ValueError"
    by (simp add: atlantis_request_valid)
  from inst h3 h4
  have "fst (route_endpoint barren_world seeded_cache atlantis_request) = Inl 422"
    by blast
  with h1 h2 h3 h4 g show ?thesis by blast
qed

subsection \<open>Routes that cannot be fetched\<close>




end
